theory Spec2Isabelle
  imports Complex_Main "HOL-Library.Signed_Division"
begin

section \<open>Instrumented client and cache (controller/client/monitor\_client.go)\<close>

text \<open>
  The file wraps a controller-runtime client and cache so that every call is timed and the
  duration is observed on one Prometheus histogram vector. The model is a shallow embedding:
  a call is a function from the state of the process to an outcome and the new state, a Go
  interface is a record of such functions, and a panic is an outcome of its own.
\<close>

subsection \<open>Objects, outcomes and the state of the process\<close>

text \<open>What \<open>obj.GetObjectKind().GroupVersionKind()\<close> returns (schema.GroupVersionKind).\<close>

record GroupVersionKind =
  gvk_Group :: string
  gvk_Version :: string
  gvk_Kind :: string

text \<open>What \<open>GroupVersionKind.GroupVersion()\<close> returns (schema.GroupVersion).\<close>

record GroupVersion =
  gv_Group :: string
  gv_Version :: string

text \<open>
  The pointee of a \<open>runtime.Object\<close>: the part of an object or of a list of objects that
  \<open>monitor\<close> reads, and the rest of its content. \<open>generic\<close> says that the object is held in
  the schema-less representation, \<open>elementKind\<close> is \<open>Some k\<close> for a list container whose
  elements have kind \<open>k\<close>.
\<close>

record Resource =
  objectKind :: GroupVersionKind
  generic :: bool
  elementKind :: "string option"
  content :: string

text \<open>
  An interface value of type \<open>runtime.Object\<close>, \<open>client.Object\<close> or \<open>client.ObjectList\<close>:
  the nil interface, an interface that holds a nil pointer of some resource type, or an
  interface that holds a pointer to the resource stored at an address.
\<close>

type_synonym addr = nat

datatype Object = NilInterface | NilPointer | Pointer addr

text \<open>A call returns or panics; deferred functions run in both cases.\<close>

datatype 'r outcome = Returns 'r | Panics string

text \<open>
  A histogram vector as \<open>prometheus.NewHistogramVec\<close> makes it: the options and the names
  of the labels.
\<close>

record HistogramVec =
  Name :: string
  Help :: string
  Buckets :: "real list"
  variableLabels :: "string list"

text \<open>
  The state of the process: the objects that pointers refer to, the reading of the
  monotonic clock in nanoseconds, and the samples observed so far, oldest first, each with
  the histogram vector it was observed on, its label values and its value.
\<close>

record world =
  heap :: "addr \<Rightarrow> Resource"
  monotonic :: int
  samples :: "(HistogramVec \<times> string list \<times> real) list"

text \<open>A call that returns a Go \<open>error\<close>: \<open>Returns None\<close> is the nil error.\<close>

type_synonym 'e call = "world \<Rightarrow> 'e option outcome \<times> world"

text \<open>
  The interfaces \<open>client.StatusWriter\<close>, \<open>client.Client\<close> and \<open>cache.Cache\<close>, restricted
  to the methods the file overrides. \<open>'c\<close> is the context, \<open>'k\<close> the object key, \<open>'o\<close> an
  option, \<open>'p\<close> a patch and \<open>'e\<close> a non-nil error value.
\<close>

record ('c, 'o, 'p, 'e) StatusWriter =
  sw_Update :: "'c \<Rightarrow> Object \<Rightarrow> 'o list \<Rightarrow> 'e call"
  sw_Patch :: "'c \<Rightarrow> Object \<Rightarrow> 'p \<Rightarrow> 'o list \<Rightarrow> 'e call"

record ('c, 'k, 'o, 'p, 'e) Client =
  cl_Get :: "'c \<Rightarrow> 'k \<Rightarrow> Object \<Rightarrow> 'e call"
  cl_List :: "'c \<Rightarrow> Object \<Rightarrow> 'o list \<Rightarrow> 'e call"
  cl_Create :: "'c \<Rightarrow> Object \<Rightarrow> 'o list \<Rightarrow> 'e call"
  cl_Delete :: "'c \<Rightarrow> Object \<Rightarrow> 'o list \<Rightarrow> 'e call"
  cl_Update :: "'c \<Rightarrow> Object \<Rightarrow> 'o list \<Rightarrow> 'e call"
  cl_Patch :: "'c \<Rightarrow> Object \<Rightarrow> 'p \<Rightarrow> 'o list \<Rightarrow> 'e call"
  cl_DeleteAllOf :: "'c \<Rightarrow> Object \<Rightarrow> 'o list \<Rightarrow> 'e call"
  cl_Status :: "world \<Rightarrow> ('c, 'o, 'p, 'e) StatusWriter outcome \<times> world"

record ('c, 'k, 'o, 'e) Cache =
  ca_Get :: "'c \<Rightarrow> 'k \<Rightarrow> Object \<Rightarrow> 'e call"
  ca_List :: "'c \<Rightarrow> Object \<Rightarrow> 'o list \<Rightarrow> 'e call"

subsection \<open>What the file imports\<close>

text \<open>
  The two values the file takes from packages that are not part of it:
  \<open>metrics.FineGrainedBuckets\<close>, and the string \<open>velaruntime.GetControllerInCaller()\<close>
  returns for the call stack of the current call.
\<close>

record env =
  FineGrainedBuckets :: "real list"
  GetControllerInCaller :: string

text \<open>
  Modelled from the spec: \<open>k8s.GetKindForObject\<close> (package util/k8s) is not among the
  sources. The kind is the resource's type name; for a list argument, with the list suffix
  trimmed, the kind of the contained element type and not that of the list wrapper.
\<close>

definition GetKindForObject :: "Resource \<Rightarrow> bool \<Rightarrow> string" where
  "GetKindForObject obj trimList =
     (case elementKind obj of
        Some k \<Rightarrow> if trimList then k else gvk_Kind (objectKind obj)
      | None \<Rightarrow> gvk_Kind (objectKind obj))"

text \<open>
  Modelled from the spec: \<open>k8s.IsUnstructuredObject\<close> (package util/k8s) is not among the
  sources. It is true if the object is represented generically rather than as a
  statically-typed structure.
\<close>

definition IsUnstructuredObject :: "Resource \<Rightarrow> bool" where
  "IsUnstructuredObject obj = generic obj"

definition gvk_GroupVersion :: "GroupVersionKind \<Rightarrow> GroupVersion" where
  "gvk_GroupVersion gvk = \<lparr>gv_Group = gvk_Group gvk, gv_Version = gvk_Version gvk\<rparr>"

text \<open>
  Modelled from the spec: \<open>schema.GroupVersion.String\<close> (k8s.io/apimachinery) is not among
  the sources. Group and version are formatted as the single string "group/version"; an
  empty group renders as just the version.
\<close>

definition GroupVersion_String :: "GroupVersion \<Rightarrow> string" where
  "GroupVersion_String gv =
     (if gv_Group gv = [] then gv_Version gv else gv_Group gv @ ''/'' @ gv_Version gv)"

text \<open>\<open>fmt.Sprintf("%t", b)\<close>: the word true or false.\<close>

definition Sprintf_t :: "bool \<Rightarrow> string" where
  "Sprintf_t b = (if b then ''true'' else ''false'')"

subsection \<open>Time\<close>

text \<open>
  A \<open>time.Time\<close> taken by \<open>time.Now()\<close> carries a monotonic clock reading, and
  \<open>time.Since\<close> subtracts the readings, saturating at the ends of \<open>time.Duration\<close>
  (an int64 count of nanoseconds).
\<close>

definition maxDuration :: int where
  "maxDuration = 2 ^ 63 - 1"

definition minDuration :: int where
  "minDuration = - (2 ^ 63)"

definition time_Now :: "world \<Rightarrow> int" where
  "time_Now w = monotonic w"

definition time_Sub :: "int \<Rightarrow> int \<Rightarrow> int" where
  "time_Sub t u =
     (let d = t - u
      in if maxDuration < d then maxDuration else if d < minDuration then minDuration else d)"

definition time_Since :: "int \<Rightarrow> world \<Rightarrow> int" where
  "time_Since t w = time_Sub (time_Now w) t"

text \<open>
  \<open>Duration.Seconds\<close>: whole seconds plus the remaining nanoseconds over \<open>1e9\<close>, with Go's
  truncating division. The float64 arithmetic is taken exactly.
\<close>

definition Seconds :: "int \<Rightarrow> real" where
  "Seconds d = real_of_int (d sdiv 1000000000) + real_of_int (d smod 1000000000) / 1000000000"

subsection \<open>The histogram vector\<close>

definition NewHistogramVec :: "string \<Rightarrow> string \<Rightarrow> real list \<Rightarrow> string list \<Rightarrow> HistogramVec" where
  "NewHistogramVec name help buckets labelNames =
     \<lparr>Name = name, Help = help, Buckets = buckets, variableLabels = labelNames\<rparr>"

definition controllerClientRequestLatency :: "env \<Rightarrow> HistogramVec" where
  "controllerClientRequestLatency e =
     NewHistogramVec ''kubevela_controller_client_request_time_seconds''
       ''client request duration for kubevela controllers''
       (FineGrainedBuckets e)
       [''controller'', ''verb'', ''kind'', ''apiVersion'', ''unstructured'']"

text \<open>
  \<open>utf8.ValidString\<close>: the bytes of the string are a sequence of well-formed UTF-8
  encodings. A byte below 128 stands alone; a lead byte 194 to 223 takes one continuation
  byte, 224 to 239 two and 240 to 244 three, the first of them in a range that excludes
  overlong forms, surrogates and code points beyond U+10FFFF; every other byte is
  ill-formed.
\<close>

definition continuation :: "nat \<Rightarrow> bool" where
  "continuation b = (128 \<le> b \<and> b \<le> 191)"

fun validUTF8 :: "nat list \<Rightarrow> bool" where
  "validUTF8 [] = True"
| "validUTF8 (b # bs) =
     (if b < 128 then validUTF8 bs
      else case bs of
        [] \<Rightarrow> False
      | c1 # bs1 \<Rightarrow>
          if 194 \<le> b \<and> b \<le> 223 then continuation c1 \<and> validUTF8 bs1
          else case bs1 of
            [] \<Rightarrow> False
          | c2 # bs2 \<Rightarrow>
              if 224 \<le> b \<and> b \<le> 239
              then (if b = 224 then 160 else 128) \<le> c1 \<and> c1 \<le> (if b = 237 then 159 else 191)
                \<and> continuation c2 \<and> validUTF8 bs2
              else case bs2 of
                [] \<Rightarrow> False
              | c3 # bs3 \<Rightarrow>
                  240 \<le> b \<and> b \<le> 244
                  \<and> (if b = 240 then 144 else 128) \<le> c1 \<and> c1 \<le> (if b = 244 then 143 else 191)
                  \<and> continuation c2 \<and> continuation c3 \<and> validUTF8 bs3)"

definition ValidString :: "string \<Rightarrow> bool" where
  "ValidString s = validUTF8 (map of_char s)"

text \<open>
  \<open>vec.WithLabelValues(lvs...).Observe(v)\<close>: \<open>WithLabelValues\<close> panics unless there is one
  value for each label name of the vector and every value is valid UTF-8; \<open>Observe\<close> then
  adds the sample to the series of these label values of that vector.
\<close>

definition WithLabelValues_Observe ::
    "HistogramVec \<Rightarrow> string list \<Rightarrow> real \<Rightarrow> world \<Rightarrow> unit outcome \<times> world" where
  "WithLabelValues_Observe vec lvs v w =
     (if length lvs \<noteq> length (variableLabels vec)
      then (Panics ''inconsistent label cardinality'', w)
      else if \<not> list_all ValidString lvs
      then (Panics ''label value is not valid UTF-8'', w)
      else (Returns (), w\<lparr>samples := samples w @ [(vec, lvs, v)]\<rparr>))"

subsection \<open>monitor\<close>

text \<open>
  \<open>monitor\<close> reads the clock and returns the callback. The callback computes the elapsed
  time, then evaluates the label values from left to right in the state in which it runs,
  and observes the sample on \<open>controllerClientRequestLatency\<close>. \<open>obj.GetObjectKind()\<close> on
  the nil interface or through a nil pointer is a nil dereference.
\<close>

definition monitor :: "env \<Rightarrow> string \<Rightarrow> Object \<Rightarrow> world \<Rightarrow> (world \<Rightarrow> unit outcome \<times> world)" where
  "monitor e verb obj w0 =
     (let begin = time_Now w0
      in (\<lambda>w.
            let v = Seconds (time_Since begin w)
            in case obj of
                 NilInterface \<Rightarrow> (Panics ''invalid memory address or nil pointer dereference'', w)
               | NilPointer \<Rightarrow> (Panics ''invalid memory address or nil pointer dereference'', w)
               | Pointer a \<Rightarrow>
                   WithLabelValues_Observe (controllerClientRequestLatency e)
                     [GetControllerInCaller e,
                      verb,
                      GetKindForObject (heap w a) True,
                      GroupVersion_String (gvk_GroupVersion (objectKind (heap w a))),
                      Sprintf_t (IsUnstructuredObject (heap w a))]
                     v w))"

text \<open>
  \<open>defer cb(); return call\<close>: the deferred callback runs after the call, whether the call
  returned or panicked. If the callback panics, that panic leaves the function; otherwise
  the outcome of the call does.
\<close>

definition deferred :: "(world \<Rightarrow> unit outcome \<times> world) \<Rightarrow> 'r outcome \<times> world \<Rightarrow> 'r outcome \<times> world" where
  "deferred cb res =
     (case res of (r, w1) \<Rightarrow>
        (case cb w1 of
           (Panics p, w2) \<Rightarrow> (Panics p, w2)
         | (Returns u, w2) \<Rightarrow> (r, w2)))"

subsection \<open>monitorCache\<close>

definition monitorCache_Get ::
    "env \<Rightarrow> ('c, 'k, 'o, 'e) Cache \<Rightarrow> 'c \<Rightarrow> 'k \<Rightarrow> Object \<Rightarrow> 'e call" where
  "monitorCache_Get e c ctx key obj w =
     (let cb = monitor e ''GetCache'' obj w
      in deferred cb (ca_Get c ctx key obj w))"

definition monitorCache_List ::
    "env \<Rightarrow> ('c, 'k, 'o, 'e) Cache \<Rightarrow> 'c \<Rightarrow> Object \<Rightarrow> 'o list \<Rightarrow> 'e call" where
  "monitorCache_List e c ctx list opts w =
     (let cb = monitor e ''ListCache'' list w
      in deferred cb (ca_List c ctx list opts w))"

definition monitorCache :: "env \<Rightarrow> ('c, 'k, 'o, 'e) Cache \<Rightarrow> ('c, 'k, 'o, 'e) Cache" where
  "monitorCache e c = \<lparr>ca_Get = monitorCache_Get e c, ca_List = monitorCache_List e c\<rparr>"

subsection \<open>monitorStatusWriter\<close>

definition monitorStatusWriter_Update ::
    "env \<Rightarrow> ('c, 'o, 'p, 'e) StatusWriter \<Rightarrow> 'c \<Rightarrow> Object \<Rightarrow> 'o list \<Rightarrow> 'e call" where
  "monitorStatusWriter_Update e sw ctx obj opts w =
     (let cb = monitor e ''StatusUpdate'' obj w
      in deferred cb (sw_Update sw ctx obj opts w))"

definition monitorStatusWriter_Patch ::
    "env \<Rightarrow> ('c, 'o, 'p, 'e) StatusWriter \<Rightarrow> 'c \<Rightarrow> Object \<Rightarrow> 'p \<Rightarrow> 'o list \<Rightarrow> 'e call" where
  "monitorStatusWriter_Patch e sw ctx obj patch opts w =
     (let cb = monitor e ''StatusPatch'' obj w
      in deferred cb (sw_Patch sw ctx obj patch opts w))"

definition monitorStatusWriter ::
    "env \<Rightarrow> ('c, 'o, 'p, 'e) StatusWriter \<Rightarrow> ('c, 'o, 'p, 'e) StatusWriter" where
  "monitorStatusWriter e sw =
     \<lparr>sw_Update = monitorStatusWriter_Update e sw, sw_Patch = monitorStatusWriter_Patch e sw\<rparr>"

subsection \<open>monitorClient\<close>

definition monitorClient_Get ::
    "env \<Rightarrow> ('c, 'k, 'o, 'p, 'e) Client \<Rightarrow> 'c \<Rightarrow> 'k \<Rightarrow> Object \<Rightarrow> 'e call" where
  "monitorClient_Get e c ctx key obj w =
     (let cb = monitor e ''Get'' obj w
      in deferred cb (cl_Get c ctx key obj w))"

definition monitorClient_List ::
    "env \<Rightarrow> ('c, 'k, 'o, 'p, 'e) Client \<Rightarrow> 'c \<Rightarrow> Object \<Rightarrow> 'o list \<Rightarrow> 'e call" where
  "monitorClient_List e c ctx list opts w =
     (let cb = monitor e ''List'' list w
      in deferred cb (cl_List c ctx list opts w))"

definition monitorClient_Create ::
    "env \<Rightarrow> ('c, 'k, 'o, 'p, 'e) Client \<Rightarrow> 'c \<Rightarrow> Object \<Rightarrow> 'o list \<Rightarrow> 'e call" where
  "monitorClient_Create e c ctx obj opts w =
     (let cb = monitor e ''Create'' obj w
      in deferred cb (cl_Create c ctx obj opts w))"

definition monitorClient_Delete ::
    "env \<Rightarrow> ('c, 'k, 'o, 'p, 'e) Client \<Rightarrow> 'c \<Rightarrow> Object \<Rightarrow> 'o list \<Rightarrow> 'e call" where
  "monitorClient_Delete e c ctx obj opts w =
     (let cb = monitor e ''Delete'' obj w
      in deferred cb (cl_Delete c ctx obj opts w))"

definition monitorClient_Update ::
    "env \<Rightarrow> ('c, 'k, 'o, 'p, 'e) Client \<Rightarrow> 'c \<Rightarrow> Object \<Rightarrow> 'o list \<Rightarrow> 'e call" where
  "monitorClient_Update e c ctx obj opts w =
     (let cb = monitor e ''Update'' obj w
      in deferred cb (cl_Update c ctx obj opts w))"

definition monitorClient_Patch ::
    "env \<Rightarrow> ('c, 'k, 'o, 'p, 'e) Client \<Rightarrow> 'c \<Rightarrow> Object \<Rightarrow> 'p \<Rightarrow> 'o list \<Rightarrow> 'e call" where
  "monitorClient_Patch e c ctx obj patch opts w =
     (let cb = monitor e ''Patch'' obj w
      in deferred cb (cl_Patch c ctx obj patch opts w))"

definition monitorClient_DeleteAllOf ::
    "env \<Rightarrow> ('c, 'k, 'o, 'p, 'e) Client \<Rightarrow> 'c \<Rightarrow> Object \<Rightarrow> 'o list \<Rightarrow> 'e call" where
  "monitorClient_DeleteAllOf e c ctx obj opts w =
     (let cb = monitor e ''DeleteAllOf'' obj w
      in deferred cb (cl_DeleteAllOf c ctx obj opts w))"

text \<open>
  \<open>Status\<close> starts no timer: it calls the wrapped client's \<open>Status\<close> and wraps the writer
  it returns.
\<close>

definition monitorClient_Status ::
    "env \<Rightarrow> ('c, 'k, 'o, 'p, 'e) Client \<Rightarrow> world \<Rightarrow> ('c, 'o, 'p, 'e) StatusWriter outcome \<times> world" where
  "monitorClient_Status e c w =
     (case cl_Status c w of
        (Returns sw, w1) \<Rightarrow> (Returns (monitorStatusWriter e sw), w1)
      | (Panics p, w1) \<Rightarrow> (Panics p, w1))"

definition monitorClient ::
    "env \<Rightarrow> ('c, 'k, 'o, 'p, 'e) Client \<Rightarrow> ('c, 'k, 'o, 'p, 'e) Client" where
  "monitorClient e c =
     \<lparr>cl_Get = monitorClient_Get e c,
      cl_List = monitorClient_List e c,
      cl_Create = monitorClient_Create e c,
      cl_Delete = monitorClient_Delete e c,
      cl_Update = monitorClient_Update e c,
      cl_Patch = monitorClient_Patch e c,
      cl_DeleteAllOf = monitorClient_DeleteAllOf e c,
      cl_Status = monitorClient_Status e c\<rparr>"

subsection \<open>Requests\<close>

text \<open>
  The eleven intercepted operations with their arguments, and the call each one stands for
  on a given client and cache. A status request goes through \<open>Status()\<close> first, as in
  \<open>c.Status().Update(ctx, obj)\<close>. Run on \<open>monitorClient e c\<close> and \<open>monitorCache e ca\<close> the
  request goes through the instrumented methods, run on \<open>c\<close> and \<open>ca\<close> it goes to the
  wrapped ones.
\<close>

datatype ('c, 'k, 'o, 'p) Request =
    ReqGet 'c 'k Object
  | ReqList 'c Object "'o list"
  | ReqCreate 'c Object "'o list"
  | ReqDelete 'c Object "'o list"
  | ReqUpdate 'c Object "'o list"
  | ReqPatch 'c Object 'p "'o list"
  | ReqDeleteAllOf 'c Object "'o list"
  | ReqStatusUpdate 'c Object "'o list"
  | ReqStatusPatch 'c Object 'p "'o list"
  | ReqCacheGet 'c 'k Object
  | ReqCacheList 'c Object "'o list"

fun perform ::
    "('c, 'k, 'o, 'p, 'e) Client \<Rightarrow> ('c, 'k, 'o, 'e) Cache \<Rightarrow> ('c, 'k, 'o, 'p) Request \<Rightarrow> 'e call" where
  "perform c ca (ReqGet ctx key obj) w = cl_Get c ctx key obj w"
| "perform c ca (ReqList ctx list opts) w = cl_List c ctx list opts w"
| "perform c ca (ReqCreate ctx obj opts) w = cl_Create c ctx obj opts w"
| "perform c ca (ReqDelete ctx obj opts) w = cl_Delete c ctx obj opts w"
| "perform c ca (ReqUpdate ctx obj opts) w = cl_Update c ctx obj opts w"
| "perform c ca (ReqPatch ctx obj patch opts) w = cl_Patch c ctx obj patch opts w"
| "perform c ca (ReqDeleteAllOf ctx obj opts) w = cl_DeleteAllOf c ctx obj opts w"
| "perform c ca (ReqStatusUpdate ctx obj opts) w =
     (case cl_Status c w of
        (Returns sw, w1) \<Rightarrow> sw_Update sw ctx obj opts w1
      | (Panics p, w1) \<Rightarrow> (Panics p, w1))"
| "perform c ca (ReqStatusPatch ctx obj patch opts) w =
     (case cl_Status c w of
        (Returns sw, w1) \<Rightarrow> sw_Patch sw ctx obj patch opts w1
      | (Panics p, w1) \<Rightarrow> (Panics p, w1))"
| "perform c ca (ReqCacheGet ctx key obj) w = ca_Get ca ctx key obj w"
| "perform c ca (ReqCacheList ctx list opts) w = ca_List ca ctx list opts w"

text \<open>The object or list argument of a request.\<close>

fun request_object :: "('c, 'k, 'o, 'p) Request \<Rightarrow> Object" where
  "request_object (ReqGet ctx key obj) = obj"
| "request_object (ReqList ctx list opts) = list"
| "request_object (ReqCreate ctx obj opts) = obj"
| "request_object (ReqDelete ctx obj opts) = obj"
| "request_object (ReqUpdate ctx obj opts) = obj"
| "request_object (ReqPatch ctx obj patch opts) = obj"
| "request_object (ReqDeleteAllOf ctx obj opts) = obj"
| "request_object (ReqStatusUpdate ctx obj opts) = obj"
| "request_object (ReqStatusPatch ctx obj patch opts) = obj"
| "request_object (ReqCacheGet ctx key obj) = obj"
| "request_object (ReqCacheList ctx list opts) = list"

text \<open>
  The state in which the operation itself is entered: the given one, and for a status
  request the one \<open>Status()\<close> leaves, if it returns.
\<close>

fun entered ::
    "('c, 'k, 'o, 'p, 'e) Client \<Rightarrow> ('c, 'k, 'o, 'p) Request \<Rightarrow> world \<Rightarrow> world option" where
  "entered c (ReqStatusUpdate ctx obj opts) w =
     (case cl_Status c w of (Returns sw, w1) \<Rightarrow> Some w1 | (Panics p, w1) \<Rightarrow> None)"
| "entered c (ReqStatusPatch ctx obj patch opts) w =
     (case cl_Status c w of (Returns sw, w1) \<Rightarrow> Some w1 | (Panics p, w1) \<Rightarrow> None)"
| "entered c req w = Some w"

text \<open>The verb names as the specification lists them, to compare the code with.\<close>

fun spec_verb :: "('c, 'k, 'o, 'p) Request \<Rightarrow> string" where
  "spec_verb (ReqGet ctx key obj) = ''Get''"
| "spec_verb (ReqList ctx list opts) = ''List''"
| "spec_verb (ReqCreate ctx obj opts) = ''Create''"
| "spec_verb (ReqDelete ctx obj opts) = ''Delete''"
| "spec_verb (ReqUpdate ctx obj opts) = ''Update''"
| "spec_verb (ReqPatch ctx obj patch opts) = ''Patch''"
| "spec_verb (ReqDeleteAllOf ctx obj opts) = ''DeleteAllOf''"
| "spec_verb (ReqStatusUpdate ctx obj opts) = ''StatusUpdate''"
| "spec_verb (ReqStatusPatch ctx obj patch opts) = ''StatusPatch''"
| "spec_verb (ReqCacheGet ctx key obj) = ''GetCache''"
| "spec_verb (ReqCacheList ctx list opts) = ''ListCache''"

text \<open>
  The label values \<open>monitor\<close>'s callback passes for a verb and the resource it finds behind
  the pointer, in the order of the call.
\<close>

definition labelValues :: "env \<Rightarrow> string \<Rightarrow> Resource \<Rightarrow> string list" where
  "labelValues e verb r =
     [GetControllerInCaller e,
      verb,
      GetKindForObject r True,
      GroupVersion_String (gvk_GroupVersion (objectKind r)),
      Sprintf_t (IsUnstructuredObject r)]"

subsection \<open>A sample client, cache and state\<close>

text \<open>
  Concrete values on which the theorems below are instantiated: a typed pod at address 0, a
  generic list of a custom resource elsewhere, a client whose \<open>Get\<close> stamps group, version
  and kind on the object it fills in and leaves the object alone when the key is missing,
  whose \<open>Update\<close> fails with a conflict and whose \<open>Delete\<close> panics, and a cache whose
  \<open>Get\<close> stamps the object in the same way.
\<close>

definition examplePod :: Resource where
  "examplePod =
     \<lparr>objectKind = \<lparr>gvk_Group = [], gvk_Version = ''v1'', gvk_Kind = ''Pod''\<rparr>,
      generic = False, elementKind = None, content = ''web-0''\<rparr>"

definition exampleList :: Resource where
  "exampleList =
     \<lparr>objectKind = \<lparr>gvk_Group = ''example.io'', gvk_Version = ''v1'', gvk_Kind = ''WidgetList''\<rparr>,
      generic = True, elementKind = Some ''Widget'', content = []\<rparr>"

definition exampleWorld :: world where
  "exampleWorld =
     \<lparr>heap = (\<lambda>a. if a = 0 then examplePod else exampleList), monotonic = 1000, samples = []\<rparr>"

definition exampleEnv :: env where
  "exampleEnv =
     \<lparr>FineGrainedBuckets = [1 / 1000, 1 / 100, 1 / 10, 1], GetControllerInCaller = ''application''\<rparr>"

definition tick :: "int \<Rightarrow> world \<Rightarrow> world" where
  "tick n w = w\<lparr>monotonic := monotonic w + n\<rparr>"

definition exampleStatusWriter :: "(unit, unit, string, string) StatusWriter" where
  "exampleStatusWriter =
     \<lparr>sw_Update = (\<lambda>ctx obj opts w. (Returns (Some ''conflict''), tick 3000000 w)),
      sw_Patch = (\<lambda>ctx obj patch opts w. (Returns None, tick 4000000 w))\<rparr>"

definition exampleClient :: "(unit, string, unit, string, string) Client" where
  "exampleClient =
     \<lparr>cl_Get = (\<lambda>ctx key obj w.
        case obj of
          Pointer a \<Rightarrow>
            if key = ''missing'' then (Returns (Some ''not found''), tick 1000000 w)
            else
              (Returns None,
               tick 2000000
                 (w\<lparr>heap := (heap w)(a := (heap w a)
                    \<lparr>objectKind :=
                       \<lparr>gvk_Group = ''apps'', gvk_Version = ''v1'', gvk_Kind = ''Deployment''\<rparr>,
                     content := key\<rparr>)\<rparr>))
        | _ \<Rightarrow> (Returns (Some ''expected pointer, but got invalid kind''), tick 1000 w)),
      cl_List = (\<lambda>ctx list opts w. (Returns None, tick 5000000 w)),
      cl_Create = (\<lambda>ctx obj opts w. (Returns None, tick 2500000000 w)),
      cl_Delete = (\<lambda>ctx obj opts w. (Panics ''connection reset'', tick 1000000 w)),
      cl_Update = (\<lambda>ctx obj opts w. (Returns (Some ''conflict''), tick 3000000 w)),
      cl_Patch = (\<lambda>ctx obj patch opts w. (Returns None, tick 4000000 w)),
      cl_DeleteAllOf = (\<lambda>ctx obj opts w. (Returns None, tick 6000000 w)),
      cl_Status = (\<lambda>w. (Returns exampleStatusWriter, w))\<rparr>"

definition exampleCache :: "(unit, string, unit, string) Cache" where
  "exampleCache =
     \<lparr>ca_Get = (\<lambda>ctx key obj w.
        case obj of
          Pointer a \<Rightarrow>
            (Returns None,
             tick 70000
               (w\<lparr>heap := (heap w)(a := (heap w a)
                  \<lparr>objectKind :=
                     \<lparr>gvk_Group = ''apps'', gvk_Version = ''v1'', gvk_Kind = ''Deployment''\<rparr>,
                   content := key\<rparr>)\<rparr>))
        | _ \<Rightarrow> (Returns (Some ''expected pointer, but got invalid kind''), tick 1000 w)),
      ca_List = (\<lambda>ctx list opts w. (Returns None, tick 90000 w))\<rparr>"

section \<open>Properties\<close>

subsection \<open>What every instrumented method does\<close>

lemmas method_defs =
  monitorClient_def monitorCache_def monitorStatusWriter_def
  monitorClient_Get_def monitorClient_List_def monitorClient_Create_def
  monitorClient_Delete_def monitorClient_Update_def monitorClient_Patch_def
  monitorClient_DeleteAllOf_def monitorClient_Status_def
  monitorStatusWriter_Update_def monitorStatusWriter_Patch_def
  monitorCache_Get_def monitorCache_List_def

lemmas label_defs =
  labelValues_def GetKindForObject_def GroupVersion_String_def gvk_GroupVersion_def
  Sprintf_t_def IsUnstructuredObject_def

lemmas vec_defs = controllerClientRequestLatency_def NewHistogramVec_def

lemmas time_defs =
  time_Now_def time_Since_def time_Sub_def maxDuration_def minDuration_def Seconds_def
  signed_divide_int_def signed_modulo_int_def

lemmas utf8_defs = ValidString_def continuation_def

lemmas example_defs =
  examplePod_def exampleList_def exampleWorld_def exampleEnv_def tick_def
  exampleStatusWriter_def exampleClient_def exampleCache_def

text \<open>
  With a pointer as object the callback adds one sample on \<open>controllerClientRequestLatency\<close>
  and returns, so the outcome of the call leaves the method; the sample carries the label
  values read in the state the call left and the time elapsed since the state in which
  \<open>monitor\<close> was called. If one of these label values is not valid UTF-8, the callback
  panics instead and adds nothing.
\<close>

lemma deferred_Pointer:
  "deferred (monitor e verb (Pointer a) w0) (r, w1) =
     (if list_all ValidString (labelValues e verb (heap w1 a))
      then (r, w1\<lparr>samples := samples w1 @
        [(controllerClientRequestLatency e, labelValues e verb (heap w1 a),
          Seconds (time_Since (time_Now w0) w1))]\<rparr>)
      else (Panics ''label value is not valid UTF-8'', w1))"
  by (simp add: deferred_def monitor_def WithLabelValues_Observe_def vec_defs labelValues_def Let_def)

text \<open>With a nil interface or a nil pointer as object the callback panics, whatever the call did.\<close>

lemma deferred_nil:
  assumes "obj = NilInterface \<or> obj = NilPointer"
  shows "deferred (monitor e verb obj w0) res =
     (Panics ''invalid memory address or nil pointer dereference'', snd res)"
  using assms by (auto simp: deferred_def monitor_def Let_def split: prod.splits)

lemma facade_Pointer:
  assumes "request_object req = Pointer a" and "entered c req w = Some w0"
    and "perform c ca req w = (r, w1)"
  shows "perform (monitorClient e c) (monitorCache e ca) req w =
     (if list_all ValidString (labelValues e (spec_verb req) (heap w1 a))
      then (r, w1\<lparr>samples := samples w1 @
        [(controllerClientRequestLatency e, labelValues e (spec_verb req) (heap w1 a),
          Seconds (time_Since (time_Now w0) w1))]\<rparr>)
      else (Panics ''label value is not valid UTF-8'', w1))"
  using assms
  by (cases req) (auto simp: method_defs deferred_Pointer Let_def split: prod.splits outcome.splits)

lemma facade_recorded:
  assumes "request_object req = Pointer a" and "entered c req w = Some w0"
    and "perform c ca req w = (r, w1)"
    and "list_all ValidString (labelValues e (spec_verb req) (heap w1 a))"
  shows "perform (monitorClient e c) (monitorCache e ca) req w =
     (r, w1\<lparr>samples := samples w1 @
        [(controllerClientRequestLatency e, labelValues e (spec_verb req) (heap w1 a),
          Seconds (time_Since (time_Now w0) w1))]\<rparr>)"
  using facade_Pointer [OF assms(1,2,3), of e] assms(4) by simp

lemma facade_nil:
  assumes "request_object req = NilInterface \<or> request_object req = NilPointer"
    and "entered c req w = Some w0"
  shows "perform (monitorClient e c) (monitorCache e ca) req w =
     (Panics ''invalid memory address or nil pointer dereference'', snd (perform c ca req w))"
  using assms
  by (cases req) (auto simp: method_defs deferred_nil Let_def split: prod.splits outcome.splits)

lemma facade_not_entered:
  assumes "entered c req w = None"
  shows "perform (monitorClient e c) (monitorCache e ca) req w = perform c ca req w"
  using assms
  by (cases req) (auto simp: method_defs Let_def split: prod.splits outcome.splits)

lemma not_entered_panics:
  assumes "entered c req w = None"
  shows "\<exists>p. fst (perform c ca req w) = Panics p"
  using assms
  by (cases req) (auto split: prod.splits outcome.splits)

lemma facade_samples:
  assumes "request_object req = Pointer a" and "entered c req w = Some w0"
    and "list_all ValidString (labelValues e (spec_verb req) (heap (snd (perform c ca req w)) a))"
  shows "samples (snd (perform (monitorClient e c) (monitorCache e ca) req w)) =
     samples (snd (perform c ca req w)) @
       [(controllerClientRequestLatency e,
         labelValues e (spec_verb req) (heap (snd (perform c ca req w)) a),
         Seconds (time_Since (time_Now w0) (snd (perform c ca req w))))]"
proof -
  obtain r w1 where d: "perform c ca req w = (r, w1)"
    by (cases "perform c ca req w")
  with assms(3) have v: "list_all ValidString (labelValues e (spec_verb req) (heap w1 a))"
    by simp
  show ?thesis
    by (simp add: facade_recorded [OF assms(1,2) d v] d)
qed

text \<open>
  Where the callback panics, on a nil object or on a label value that is not valid UTF-8,
  the panic replaces the outcome of the wrapped call and no sample is added.
\<close>

lemma facade_invalid_label:
  assumes "request_object req = Pointer a" and "entered c req w = Some w0"
    and "\<not> list_all ValidString (labelValues e (spec_verb req) (heap (snd (perform c ca req w)) a))"
  shows "perform (monitorClient e c) (monitorCache e ca) req w =
     (Panics ''label value is not valid UTF-8'', snd (perform c ca req w))"
proof -
  obtain r w1 where d: "perform c ca req w = (r, w1)"
    by (cases "perform c ca req w")
  with assms(3) facade_Pointer [OF assms(1,2) d, of e] show ?thesis
    by simp
qed

lemma invalid_kind_example:
  "perform (monitorClient exampleEnv exampleClient) (monitorCache exampleEnv exampleCache)
     (ReqUpdate () (Pointer 0) [])
     (exampleWorld\<lparr>heap := (heap exampleWorld)
        (0 := examplePod\<lparr>objectKind :=
           \<lparr>gvk_Group = [], gvk_Version = ''v1'', gvk_Kind = [CHR 0xFF]\<rparr>\<rparr>)\<rparr>) =
   (Panics ''label value is not valid UTF-8'',
    tick 3000000 (exampleWorld\<lparr>heap := (heap exampleWorld)
        (0 := examplePod\<lparr>objectKind :=
           \<lparr>gvk_Group = [], gvk_Version = ''v1'', gvk_Kind = [CHR 0xFF]\<rparr>\<rparr>)\<rparr>))"
  by (simp add: method_defs monitor_def deferred_def WithLabelValues_Observe_def vec_defs
      label_defs utf8_defs example_defs Let_def)

lemma facade_returns:
  assumes "fst (perform (monitorClient e c) (monitorCache e ca) req w) = Returns r"
  shows "\<exists>a. request_object req = Pointer a"
proof (cases "entered c req w")
  case None
  from not_entered_panics [OF None, of ca] facade_not_entered [OF None, of e ca] assms
  show ?thesis by auto
next
  case (Some w0)
  show ?thesis
  proof (cases "request_object req")
    case NilInterface
    then have "request_object req = NilInterface \<or> request_object req = NilPointer"
      by simp
    from facade_nil [OF this Some, of e ca] assms show ?thesis by simp
  next
    case NilPointer
    then have "request_object req = NilInterface \<or> request_object req = NilPointer"
      by simp
    from facade_nil [OF this Some, of e ca] assms show ?thesis by simp
  next
    case (Pointer a)
    then show ?thesis by simp
  qed
qed

lemma Seconds_nonneg: "0 \<le> d \<Longrightarrow> 0 \<le> Seconds d"
  by (simp add: Seconds_def signed_divide_int_def signed_modulo_int_def sgn_if
      pos_imp_zdiv_nonneg_iff)

lemma time_Sub_nonneg: "u \<le> t \<Longrightarrow> 0 \<le> time_Sub t u"
  by (simp add: time_Sub_def Let_def maxDuration_def minDuration_def)

text \<open>The eleven verb names are pairwise different, and each is valid UTF-8.\<close>

lemma verbs_distinct:
  "distinct (map spec_verb
     [ReqGet ctx key obj, ReqList ctx obj opts, ReqCreate ctx obj opts, ReqDelete ctx obj opts,
      ReqUpdate ctx obj opts, ReqPatch ctx obj patch opts, ReqDeleteAllOf ctx obj opts,
      ReqStatusUpdate ctx obj opts, ReqStatusPatch ctx obj patch opts,
      ReqCacheGet ctx key obj, ReqCacheList ctx obj opts])"
  by simp

lemma verbs_valid: "ValidString (spec_verb req)"
  by (cases req) (simp_all add: ValidString_def)

subsection \<open>Results pass through\<close>

text \<open>
  C1 as stated: for every operation of the instrumented client and cache and every input,
  the value and the error returned are those of the same operation on the wrapped client
  or cache. This fails when the object argument is the nil interface: the wrapped \<open>Get\<close>
  of the sample client returns an error, while the instrumented \<open>Get\<close> panics in the
  deferred callback, on \<open>obj.GetObjectKind()\<close>.
\<close>

theorem C1_nil_object_counterexample:
  "fst (perform (monitorClient exampleEnv exampleClient) (monitorCache exampleEnv exampleCache)
          (ReqGet () ''web-0'' NilInterface) exampleWorld)
     = Panics ''invalid memory address or nil pointer dereference''
   \<and> fst (perform exampleClient exampleCache (ReqGet () ''web-0'' NilInterface) exampleWorld)
     = Returns (Some ''expected pointer, but got invalid kind'')
   \<and> fst (perform (monitorClient exampleEnv exampleClient) (monitorCache exampleEnv exampleCache)
          (ReqGet () ''web-0'' NilInterface) exampleWorld)
     \<noteq> fst (perform exampleClient exampleCache (ReqGet () ''web-0'' NilInterface) exampleWorld)"
  by (simp add: method_defs monitor_def deferred_def exampleClient_def Let_def)

text \<open>
  C1, amended: for every operation of the instrumented client and cache (Get, List, Create,
  Delete, Update, Patch, DeleteAllOf, Status().Update, Status().Patch, cache Get, cache
  List) and every input on which the completion callback does not panic, that is whose
  object or list argument is a pointer that is not nil and whose label values, read from
  the object as the wrapped operation leaves it, are valid UTF-8, the outcome handed to the
  caller (nil, an error, or a panic of the wrapped call) is exactly that of the same
  operation on the wrapped client or cache with the same arguments, and the objects and the
  clock are left as the wrapped operation leaves them.
\<close>

theorem C1_results_pass_through:
  assumes "request_object req = Pointer a"
    and "list_all ValidString
      (labelValues e (spec_verb req) (heap (snd (perform c ca req w)) a))"
  shows "fst (perform (monitorClient e c) (monitorCache e ca) req w) = fst (perform c ca req w)
     \<and> heap (snd (perform (monitorClient e c) (monitorCache e ca) req w)) =
         heap (snd (perform c ca req w))
     \<and> monotonic (snd (perform (monitorClient e c) (monitorCache e ca) req w)) =
         monotonic (snd (perform c ca req w))"
proof (cases "entered c req w")
  case None
  then show ?thesis by (simp add: facade_not_entered)
next
  case (Some w0)
  obtain r w1 where d: "perform c ca req w = (r, w1)"
    by (cases "perform c ca req w")
  with assms(2) have v: "list_all ValidString (labelValues e (spec_verb req) (heap w1 a))"
    by simp
  show ?thesis
    by (simp add: facade_recorded [OF assms(1) Some d v] d)
qed

theorem C1_results_pass_through_witness:
  "request_object (ReqUpdate () (Pointer 0) [()] :: (unit, string, unit, string) Request) = Pointer 0
   \<and> list_all ValidString
       (labelValues exampleEnv (spec_verb (ReqUpdate () (Pointer 0) [()] :: (unit, string, unit, string) Request))
          (heap (snd (perform exampleClient exampleCache (ReqUpdate () (Pointer 0) [()]) exampleWorld)) 0))
   \<and> fst (perform (monitorClient exampleEnv exampleClient) (monitorCache exampleEnv exampleCache)
          (ReqUpdate () (Pointer 0) [()]) exampleWorld) = Returns (Some ''conflict'')
   \<and> heap (snd (perform (monitorClient exampleEnv exampleClient)
          (monitorCache exampleEnv exampleCache) (ReqUpdate () (Pointer 0) [()]) exampleWorld)) =
       heap exampleWorld
   \<and> monotonic (snd (perform (monitorClient exampleEnv exampleClient)
          (monitorCache exampleEnv exampleCache) (ReqUpdate () (Pointer 0) [()]) exampleWorld)) =
       3001000"
proof -
  have h1: "request_object (ReqUpdate () (Pointer 0) [()] :: (unit, string, unit, string) Request) = Pointer 0"
    by simp
  have h2: "list_all ValidString
       (labelValues exampleEnv (spec_verb (ReqUpdate () (Pointer 0) [()] :: (unit, string, unit, string) Request))
          (heap (snd (perform exampleClient exampleCache (ReqUpdate () (Pointer 0) [()]) exampleWorld)) 0))"
    by (simp add: label_defs utf8_defs example_defs)
  have d: "perform exampleClient exampleCache (ReqUpdate () (Pointer 0) [()]) exampleWorld =
      (Returns (Some ''conflict''), tick 3000000 exampleWorld)"
    by (simp add: exampleClient_def)
  have c: "fst (perform (monitorClient exampleEnv exampleClient) (monitorCache exampleEnv exampleCache)
          (ReqUpdate () (Pointer 0) [()]) exampleWorld) = Returns (Some ''conflict'')
   \<and> heap (snd (perform (monitorClient exampleEnv exampleClient)
          (monitorCache exampleEnv exampleCache) (ReqUpdate () (Pointer 0) [()]) exampleWorld)) =
       heap exampleWorld
   \<and> monotonic (snd (perform (monitorClient exampleEnv exampleClient)
          (monitorCache exampleEnv exampleCache) (ReqUpdate () (Pointer 0) [()]) exampleWorld)) =
       3001000"
    using C1_results_pass_through [OF h1 h2]
    unfolding d by (simp add: tick_def exampleWorld_def)
  from h1 h2 c show ?thesis by (intro conjI) simp_all
qed

subsection \<open>One observation for every call\<close>

text \<open>
  C2 as stated: for every intercepted call that completes, whether the delegated call
  returns success or an error, exactly one observation is written. This fails when the
  object argument is nil: the wrapped \<open>Update\<close> of the sample client returns a conflict, the
  deferred callback panics before it observes anything, and no sample is written.
\<close>

theorem C2_nil_object_counterexample:
  "fst (perform exampleClient exampleCache (ReqUpdate () NilInterface []) exampleWorld)
     = Returns (Some ''conflict'')
   \<and> samples (snd (perform (monitorClient exampleEnv exampleClient)
         (monitorCache exampleEnv exampleCache) (ReqUpdate () NilInterface []) exampleWorld))
     = samples (snd (perform exampleClient exampleCache (ReqUpdate () NilInterface []) exampleWorld))
   \<and> samples (snd (perform (monitorClient exampleEnv exampleClient)
         (monitorCache exampleEnv exampleCache) (ReqUpdate () NilInterface []) exampleWorld))
     = []"
  by (simp add: method_defs monitor_def deferred_def example_defs Let_def)

text \<open>
  C2, amended: for every intercepted call on which the completion callback does not panic,
  that is whose object or list argument is a pointer that is not nil and whose label values
  are valid UTF-8, and whether the delegated call returns success, returns an error or
  panics, exactly one observation is written to the histogram: the samples after the call
  are those the delegated call left followed by one more, on
  \<open>controllerClientRequestLatency\<close>, and the duration of that sample in seconds is not
  negative, the monotonic clock not running backwards while the delegated call runs. The
  outcome of the delegated call is handed on.
\<close>

theorem C2_one_observation_on_every_exit_path:
  assumes "request_object req = Pointer a"
    and "entered c req w = Some w0"
    and "list_all ValidString
      (labelValues e (spec_verb req) (heap (snd (perform c ca req w)) a))"
    and "monotonic w0 \<le> monotonic (snd (perform c ca req w))"
  shows "\<exists>lvs v.
       samples (snd (perform (monitorClient e c) (monitorCache e ca) req w)) =
         samples (snd (perform c ca req w)) @ [(controllerClientRequestLatency e, lvs, v)]
     \<and> 0 \<le> v
     \<and> fst (perform (monitorClient e c) (monitorCache e ca) req w) = fst (perform c ca req w)"
proof -
  obtain r w1 where d: "perform c ca req w = (r, w1)"
    by (cases "perform c ca req w")
  with assms(3) have v: "list_all ValidString (labelValues e (spec_verb req) (heap w1 a))"
    by simp
  from assms(4) d have "0 \<le> Seconds (time_Since (time_Now w0) w1)"
    by (simp add: Seconds_nonneg time_Sub_nonneg time_Since_def time_Now_def)
  with facade_recorded [OF assms(1,2) d v] d show ?thesis
    by simp
qed

theorem C2_one_observation_on_every_exit_path_witness:
  "request_object (ReqUpdate () (Pointer 0) [] :: (unit, string, unit, string) Request) = Pointer 0
   \<and> entered exampleClient (ReqUpdate () (Pointer 0) []) exampleWorld = Some exampleWorld
   \<and> list_all ValidString
       (labelValues exampleEnv (spec_verb (ReqUpdate () (Pointer 0) [] :: (unit, string, unit, string) Request))
          (heap (snd (perform exampleClient exampleCache (ReqUpdate () (Pointer 0) []) exampleWorld)) 0))
   \<and> monotonic exampleWorld
       \<le> monotonic (snd (perform exampleClient exampleCache (ReqUpdate () (Pointer 0) []) exampleWorld))
   \<and> fst (perform exampleClient exampleCache (ReqUpdate () (Pointer 0) []) exampleWorld)
       = Returns (Some ''conflict'')
   \<and> (\<exists>lvs v.
         samples (snd (perform (monitorClient exampleEnv exampleClient)
             (monitorCache exampleEnv exampleCache) (ReqUpdate () (Pointer 0) []) exampleWorld)) =
           samples (snd (perform exampleClient exampleCache (ReqUpdate () (Pointer 0) []) exampleWorld))
             @ [(controllerClientRequestLatency exampleEnv, lvs, v)]
       \<and> 0 \<le> v
       \<and> fst (perform (monitorClient exampleEnv exampleClient)
             (monitorCache exampleEnv exampleCache) (ReqUpdate () (Pointer 0) []) exampleWorld) =
           fst (perform exampleClient exampleCache (ReqUpdate () (Pointer 0) []) exampleWorld))"
proof -
  have h1: "request_object (ReqUpdate () (Pointer 0) [] :: (unit, string, unit, string) Request) = Pointer 0"
    by simp
  have h2: "entered exampleClient (ReqUpdate () (Pointer 0) []) exampleWorld = Some exampleWorld"
    by simp
  have h3: "list_all ValidString
       (labelValues exampleEnv (spec_verb (ReqUpdate () (Pointer 0) [] :: (unit, string, unit, string) Request))
          (heap (snd (perform exampleClient exampleCache (ReqUpdate () (Pointer 0) []) exampleWorld)) 0))"
    by (simp add: label_defs utf8_defs example_defs)
  have h4: "monotonic exampleWorld
       \<le> monotonic (snd (perform exampleClient exampleCache (ReqUpdate () (Pointer 0) []) exampleWorld))"
    by (simp add: exampleClient_def tick_def)
  have r: "fst (perform exampleClient exampleCache (ReqUpdate () (Pointer 0) []) exampleWorld)
       = Returns (Some ''conflict'')"
    by (simp add: exampleClient_def)
  from C2_one_observation_on_every_exit_path [OF h1 h2 h3 h4] h1 h2 h3 h4 r
  show ?thesis by (intro conjI)
qed

subsection \<open>When the labels are resolved\<close>

text \<open>
  C3 as stated: \<open>monitor\<close> resolves the label tuple at call entry, so that mutations the
  delegated call makes to the object cannot change the recorded labels. This fails: the
  labels are computed inside the callback. The sample cache's \<open>Get\<close> stamps group, version
  and kind on the pod it fills in, and the sample recorded by \<open>monitorCache.Get\<close> carries
  the stamped values, not those the pod had at call entry.
\<close>

theorem C3_labels_at_entry_counterexample:
  "map (\<lambda>s. fst (snd s))
       (samples (snd (monitorCache_Get exampleEnv exampleCache () ''web-0'' (Pointer 0) exampleWorld)))
     = [[''application'', ''GetCache'', ''Deployment'', ''apps/v1'', ''false'']]
   \<and> labelValues exampleEnv ''GetCache'' (heap exampleWorld 0)
     = [''application'', ''GetCache'', ''Pod'', ''v1'', ''false'']
   \<and> map (\<lambda>s. fst (snd s))
       (samples (snd (monitorCache_Get exampleEnv exampleCache () ''web-0'' (Pointer 0) exampleWorld)))
     \<noteq> [labelValues exampleEnv ''GetCache'' (heap exampleWorld 0)]"
  by (simp add: monitorCache_Get_def monitor_def deferred_def WithLabelValues_Observe_def
      vec_defs label_defs utf8_defs example_defs Let_def)

text \<open>
  C3, amended: \<open>monitor\<close> captures the current monotonic time, the verb and the reference to
  the object at call entry, before delegating; kind, api\_version, is\_dynamic and the
  controller are resolved once, when the completion callback runs, from the object as the
  delegated call left it, so mutations the delegated call makes to the object argument are
  reflected in the recorded labels. The duration is measured from the time captured at
  entry. The sample is recorded if these label values are valid UTF-8, and nothing is
  recorded otherwise.
\<close>

theorem C3_time_at_entry_labels_at_completion:
  assumes "request_object req = Pointer a" and "entered c req w = Some w0"
  shows "samples (snd (perform (monitorClient e c) (monitorCache e ca) req w)) =
     samples (snd (perform c ca req w)) @
       (if list_all ValidString
             (labelValues e (spec_verb req) (heap (snd (perform c ca req w)) a))
        then [(controllerClientRequestLatency e,
               labelValues e (spec_verb req) (heap (snd (perform c ca req w)) a),
               Seconds (time_Sub (monotonic (snd (perform c ca req w))) (monotonic w0)))]
        else [])"
proof -
  obtain r w1 where d: "perform c ca req w = (r, w1)"
    by (cases "perform c ca req w")
  show ?thesis
    by (simp add: facade_Pointer [OF assms d] d time_Since_def time_Now_def)
qed

theorem C3_time_at_entry_labels_at_completion_witness:
  "request_object (ReqCacheGet () ''web-0'' (Pointer 0) :: (unit, string, unit, string) Request) = Pointer 0
   \<and> entered exampleClient (ReqCacheGet () ''web-0'' (Pointer 0)) exampleWorld = Some exampleWorld
   \<and> samples (snd (perform (monitorClient exampleEnv exampleClient)
         (monitorCache exampleEnv exampleCache) (ReqCacheGet () ''web-0'' (Pointer 0)) exampleWorld)) =
       [(controllerClientRequestLatency exampleEnv,
         [''application'', ''GetCache'', ''Deployment'', ''apps/v1'', ''false''], 7 / 100000)]"
proof -
  have h1: "request_object (ReqCacheGet () ''web-0'' (Pointer 0) :: (unit, string, unit, string) Request) = Pointer 0"
    by simp
  have h2: "entered exampleClient (ReqCacheGet () ''web-0'' (Pointer 0)) exampleWorld = Some exampleWorld"
    by simp
  have d: "perform exampleClient exampleCache (ReqCacheGet () ''web-0'' (Pointer 0)) exampleWorld =
      (Returns None,
       tick 70000 (exampleWorld\<lparr>heap := (heap exampleWorld)(0 := (heap exampleWorld 0)
          \<lparr>objectKind := \<lparr>gvk_Group = ''apps'', gvk_Version = ''v1'', gvk_Kind = ''Deployment''\<rparr>,
           content := ''web-0''\<rparr>)\<rparr>))"
    by (simp add: exampleCache_def)
  have c: "samples (snd (perform (monitorClient exampleEnv exampleClient)
         (monitorCache exampleEnv exampleCache) (ReqCacheGet () ''web-0'' (Pointer 0)) exampleWorld)) =
       [(controllerClientRequestLatency exampleEnv,
         [''application'', ''GetCache'', ''Deployment'', ''apps/v1'', ''false''], 7 / 100000)]"
    using C3_time_at_entry_labels_at_completion [OF h1 h2, of exampleEnv exampleCache]
    unfolding d
    by (simp add: label_defs utf8_defs time_defs tick_def exampleWorld_def examplePod_def exampleEnv_def)
  from h1 h2 c show ?thesis by (intro conjI)
qed

subsection \<open>The labels of the recorded sample\<close>

text \<open>
  C4: each intercepted operation records its observation with the verb label set to the
  operation's fixed name: Get, List, Create, Delete, Update, Patch and DeleteAllOf for the
  client, StatusUpdate and StatusPatch for the status writer, GetCache and ListCache for
  the cache. The verb is the second label value of the sample the operation adds.
\<close>

theorem C4_verb_label:
  assumes "request_object req = Pointer a" and "entered c req w = Some w0"
    and "list_all ValidString
      (labelValues e (spec_verb req) (heap (snd (perform c ca req w)) a))"
  shows "\<exists>controller kind apiVersion unstructured v.
     samples (snd (perform (monitorClient e c) (monitorCache e ca) req w)) =
       samples (snd (perform c ca req w)) @
         [(controllerClientRequestLatency e,
           [controller, spec_verb req, kind, apiVersion, unstructured], v)]"
  using facade_samples [OF assms]
  by (simp add: labelValues_def)

theorem C4_verb_label_witness:
  "request_object (ReqStatusPatch () (Pointer 0) ''{}'' [] :: (unit, string, unit, string) Request) = Pointer 0
   \<and> entered exampleClient (ReqStatusPatch () (Pointer 0) ''{}'' []) exampleWorld = Some exampleWorld
   \<and> list_all ValidString
       (labelValues exampleEnv
          (spec_verb (ReqStatusPatch () (Pointer 0) ''{}'' [] :: (unit, string, unit, string) Request))
          (heap (snd (perform exampleClient exampleCache (ReqStatusPatch () (Pointer 0) ''{}'' [])
             exampleWorld)) 0))
   \<and> (\<exists>controller kind apiVersion unstructured v.
         samples (snd (perform (monitorClient exampleEnv exampleClient)
             (monitorCache exampleEnv exampleCache) (ReqStatusPatch () (Pointer 0) ''{}'' []) exampleWorld)) =
           samples (snd (perform exampleClient exampleCache (ReqStatusPatch () (Pointer 0) ''{}'' [])
             exampleWorld)) @
             [(controllerClientRequestLatency exampleEnv,
               [controller, ''StatusPatch'', kind, apiVersion, unstructured], v)])"
proof -
  have h1: "request_object (ReqStatusPatch () (Pointer 0) ''{}'' [] :: (unit, string, unit, string) Request) = Pointer 0"
    by simp
  have h2: "entered exampleClient (ReqStatusPatch () (Pointer 0) ''{}'' []) exampleWorld = Some exampleWorld"
    by (simp add: exampleClient_def)
  have h3: "list_all ValidString
       (labelValues exampleEnv
          (spec_verb (ReqStatusPatch () (Pointer 0) ''{}'' [] :: (unit, string, unit, string) Request))
          (heap (snd (perform exampleClient exampleCache (ReqStatusPatch () (Pointer 0) ''{}'' [])
             exampleWorld)) 0))"
    by (simp add: label_defs utf8_defs example_defs)
  have v: "spec_verb (ReqStatusPatch () (Pointer 0) ''{}'' [] :: (unit, string, unit, string) Request) = ''StatusPatch''"
    by simp
  have c: "\<exists>controller kind apiVersion unstructured v.
         samples (snd (perform (monitorClient exampleEnv exampleClient)
             (monitorCache exampleEnv exampleCache) (ReqStatusPatch () (Pointer 0) ''{}'' []) exampleWorld)) =
           samples (snd (perform exampleClient exampleCache (ReqStatusPatch () (Pointer 0) ''{}'' [])
             exampleWorld)) @
             [(controllerClientRequestLatency exampleEnv,
               [controller, ''StatusPatch'', kind, apiVersion, unstructured], v)]"
    using C4_verb_label [OF h1 h2 h3] unfolding v .
  from h1 h2 h3 c show ?thesis by (intro conjI)
qed

text \<open>
  C5: calling \<open>Status()\<close> on the instrumented client records no observation itself: it
  leaves the state as the wrapped client's \<open>Status()\<close> leaves it, so the samples are
  unchanged whenever the wrapped accessor does not touch them. It returns a new
  instrumented status writer around the wrapped client's status writer, and each \<open>Update\<close>
  and \<open>Patch\<close> on the returned writer adds one sample of its own, timed from the entry of
  that call, its label values being valid UTF-8.
\<close>

theorem C5_status_accessor_not_timed:
  assumes "cl_Status c w = (Returns sw, w1)"
  shows "monitorClient_Status e c w = (Returns (monitorStatusWriter e sw), w1)
     \<and> (samples w1 = samples w \<longrightarrow> samples (snd (monitorClient_Status e c w)) = samples w)
     \<and> samples (snd (sw_Update (monitorStatusWriter e sw) ctx (Pointer a) opts w2)) =
         samples (snd (sw_Update sw ctx (Pointer a) opts w2)) @
           (if list_all ValidString
                 (labelValues e ''StatusUpdate'' (heap (snd (sw_Update sw ctx (Pointer a) opts w2)) a))
            then [(controllerClientRequestLatency e,
                   labelValues e ''StatusUpdate'' (heap (snd (sw_Update sw ctx (Pointer a) opts w2)) a),
                   Seconds (time_Since (time_Now w2) (snd (sw_Update sw ctx (Pointer a) opts w2))))]
            else [])
     \<and> samples (snd (sw_Patch (monitorStatusWriter e sw) ctx (Pointer a) patch opts w2)) =
         samples (snd (sw_Patch sw ctx (Pointer a) patch opts w2)) @
           (if list_all ValidString
                 (labelValues e ''StatusPatch'' (heap (snd (sw_Patch sw ctx (Pointer a) patch opts w2)) a))
            then [(controllerClientRequestLatency e,
                   labelValues e ''StatusPatch'' (heap (snd (sw_Patch sw ctx (Pointer a) patch opts w2)) a),
                   Seconds (time_Since (time_Now w2) (snd (sw_Patch sw ctx (Pointer a) patch opts w2))))]
            else [])"
proof -
  have acc: "monitorClient_Status e c w = (Returns (monitorStatusWriter e sw), w1)"
    using assms by (simp add: monitorClient_Status_def)
  obtain r3 w3 where u: "sw_Update sw ctx (Pointer a) opts w2 = (r3, w3)"
    by (cases "sw_Update sw ctx (Pointer a) opts w2")
  obtain r4 w4 where p: "sw_Patch sw ctx (Pointer a) patch opts w2 = (r4, w4)"
    by (cases "sw_Patch sw ctx (Pointer a) patch opts w2")
  have upd: "sw_Update (monitorStatusWriter e sw) ctx (Pointer a) opts w2 =
      deferred (monitor e ''StatusUpdate'' (Pointer a) w2) (r3, w3)"
    by (simp add: monitorStatusWriter_def monitorStatusWriter_Update_def Let_def u)
  have pat: "sw_Patch (monitorStatusWriter e sw) ctx (Pointer a) patch opts w2 =
      deferred (monitor e ''StatusPatch'' (Pointer a) w2) (r4, w4)"
    by (simp add: monitorStatusWriter_def monitorStatusWriter_Patch_def Let_def p)
  show ?thesis
    by (simp add: acc upd pat u p deferred_Pointer)
qed

theorem C5_status_accessor_not_timed_witness:
  "cl_Status exampleClient exampleWorld = (Returns exampleStatusWriter, exampleWorld)
   \<and> monitorClient_Status exampleEnv exampleClient exampleWorld =
       (Returns (monitorStatusWriter exampleEnv exampleStatusWriter), exampleWorld)
   \<and> samples (snd (monitorClient_Status exampleEnv exampleClient exampleWorld)) = []
   \<and> samples (snd (sw_Update (monitorStatusWriter exampleEnv exampleStatusWriter) () (Pointer 0) []
         exampleWorld)) =
       [(controllerClientRequestLatency exampleEnv,
         [''application'', ''StatusUpdate'', ''Pod'', ''v1'', ''false''], 3 / 1000)]
   \<and> samples (snd (sw_Patch (monitorStatusWriter exampleEnv exampleStatusWriter) () (Pointer 0) ''{}'' []
         exampleWorld)) =
       [(controllerClientRequestLatency exampleEnv,
         [''application'', ''StatusPatch'', ''Pod'', ''v1'', ''false''], 4 / 1000)]"
proof -
  have h: "cl_Status exampleClient exampleWorld = (Returns exampleStatusWriter, exampleWorld)"
    by (simp add: exampleClient_def)
  have u: "sw_Update exampleStatusWriter () (Pointer 0) [] exampleWorld =
      (Returns (Some ''conflict''), tick 3000000 exampleWorld)"
    by (simp add: exampleStatusWriter_def)
  have p: "sw_Patch exampleStatusWriter () (Pointer 0) ''{}'' [] exampleWorld =
      (Returns None, tick 4000000 exampleWorld)"
    by (simp add: exampleStatusWriter_def)
  show ?thesis
    using C5_status_accessor_not_timed [OF h, where e = exampleEnv and ctx = "()" and a = 0
        and opts = "[]" and ?w2.0 = exampleWorld and patch = "''{}''"] h
    unfolding u p
    by (simp add: label_defs utf8_defs time_defs tick_def exampleWorld_def examplePod_def exampleEnv_def)
qed

text \<open>
  C6: for a \<open>List\<close> on the client or on the cache, the kind label of the recorded sample is
  the kind of the element type of the list argument, not the kind of the list wrapper:
  \<open>monitor\<close> asks \<open>GetKindForObject\<close> with the list suffix trimmed. The kind is the third
  label value.
\<close>

theorem C6_list_kind_is_element_kind:
  assumes "req = ReqList ctx (Pointer a) opts \<or> req = ReqCacheList ctx (Pointer a) opts"
    and "elementKind (heap (snd (perform c ca req w)) a) = Some k"
    and "list_all ValidString
      (labelValues e (spec_verb req) (heap (snd (perform c ca req w)) a))"
  shows "\<exists>controller verb apiVersion unstructured v.
     samples (snd (perform (monitorClient e c) (monitorCache e ca) req w)) =
       samples (snd (perform c ca req w)) @
         [(controllerClientRequestLatency e, [controller, verb, k, apiVersion, unstructured], v)]"
proof -
  from assms(1) have a: "request_object req = Pointer a" and en: "entered c req w = Some w"
    by auto
  from facade_samples [OF a en assms(3)] assms(2) show ?thesis
    by (simp add: labelValues_def GetKindForObject_def)
qed

theorem C6_list_kind_is_element_kind_witness:
  "(ReqCacheList () (Pointer 1) [] = (ReqList () (Pointer 1) [] :: (unit, string, unit, string) Request)
      \<or> ReqCacheList () (Pointer 1) [] = (ReqCacheList () (Pointer 1) [] :: (unit, string, unit, string) Request))
   \<and> elementKind (heap (snd (perform exampleClient exampleCache (ReqCacheList () (Pointer 1) [])
         exampleWorld)) 1) = Some ''Widget''
   \<and> list_all ValidString
       (labelValues exampleEnv
          (spec_verb (ReqCacheList () (Pointer 1) [] :: (unit, string, unit, string) Request))
          (heap (snd (perform exampleClient exampleCache (ReqCacheList () (Pointer 1) [])
             exampleWorld)) 1))
   \<and> gvk_Kind (objectKind (heap (snd (perform exampleClient exampleCache (ReqCacheList () (Pointer 1) [])
         exampleWorld)) 1)) = ''WidgetList''
   \<and> (\<exists>controller verb apiVersion unstructured v.
         samples (snd (perform (monitorClient exampleEnv exampleClient)
             (monitorCache exampleEnv exampleCache) (ReqCacheList () (Pointer 1) []) exampleWorld)) =
           samples (snd (perform exampleClient exampleCache (ReqCacheList () (Pointer 1) [])
             exampleWorld)) @
             [(controllerClientRequestLatency exampleEnv,
               [controller, verb, ''Widget'', apiVersion, unstructured], v)])"
proof -
  have h1: "ReqCacheList () (Pointer 1) [] = (ReqList () (Pointer 1) [] :: (unit, string, unit, string) Request)
      \<or> ReqCacheList () (Pointer 1) [] = (ReqCacheList () (Pointer 1) [] :: (unit, string, unit, string) Request)"
    by simp
  have h2: "elementKind (heap (snd (perform exampleClient exampleCache (ReqCacheList () (Pointer 1) [])
         exampleWorld)) 1) = Some ''Widget''"
    by (simp add: example_defs)
  have h3: "list_all ValidString
       (labelValues exampleEnv
          (spec_verb (ReqCacheList () (Pointer 1) [] :: (unit, string, unit, string) Request))
          (heap (snd (perform exampleClient exampleCache (ReqCacheList () (Pointer 1) [])
             exampleWorld)) 1))"
    by (simp add: label_defs utf8_defs example_defs)
  have w: "gvk_Kind (objectKind (heap (snd (perform exampleClient exampleCache
         (ReqCacheList () (Pointer 1) []) exampleWorld)) 1)) = ''WidgetList''"
    by (simp add: example_defs)
  from C6_list_kind_is_element_kind [OF h1 h2 h3] h1 h2 h3 w
  show ?thesis by (intro conjI)
qed

text \<open>
  C7: the api\_version label, the fourth label value, is formatted from the group and the
  version of the object as the single string group/version, and when the group is empty it
  is just the version, with no leading slash.
\<close>

theorem C7_api_version_label:
  assumes "request_object req = Pointer a" and "entered c req w = Some w0"
    and "objectKind (heap (snd (perform c ca req w)) a) = gvk"
    and "list_all ValidString
      (labelValues e (spec_verb req) (heap (snd (perform c ca req w)) a))"
  shows "\<exists>controller verb kind unstructured v.
     samples (snd (perform (monitorClient e c) (monitorCache e ca) req w)) =
       samples (snd (perform c ca req w)) @
         [(controllerClientRequestLatency e,
           [controller, verb, kind,
            (if gvk_Group gvk = [] then gvk_Version gvk
             else gvk_Group gvk @ ''/'' @ gvk_Version gvk),
            unstructured], v)]"
  using facade_samples [OF assms(1,2,4)] assms(3)
  by (simp add: labelValues_def GroupVersion_String_def gvk_GroupVersion_def)

theorem C7_api_version_label_witness:
  "request_object (ReqCreate () (Pointer 0) [] :: (unit, string, unit, string) Request) = Pointer 0
   \<and> entered exampleClient (ReqCreate () (Pointer 0) []) exampleWorld = Some exampleWorld
   \<and> objectKind (heap (snd (perform exampleClient exampleCache (ReqCreate () (Pointer 0) [])
         exampleWorld)) 0) = \<lparr>gvk_Group = [], gvk_Version = ''v1'', gvk_Kind = ''Pod''\<rparr>
   \<and> list_all ValidString
       (labelValues exampleEnv
          (spec_verb (ReqCreate () (Pointer 0) [] :: (unit, string, unit, string) Request))
          (heap (snd (perform exampleClient exampleCache (ReqCreate () (Pointer 0) [])
             exampleWorld)) 0))
   \<and> (\<exists>controller verb kind unstructured v.
         samples (snd (perform (monitorClient exampleEnv exampleClient)
             (monitorCache exampleEnv exampleCache) (ReqCreate () (Pointer 0) []) exampleWorld)) =
           samples (snd (perform exampleClient exampleCache (ReqCreate () (Pointer 0) [])
             exampleWorld)) @
             [(controllerClientRequestLatency exampleEnv,
               [controller, verb, kind, ''v1'', unstructured], v)])
   \<and> request_object (ReqList () (Pointer 1) [] :: (unit, string, unit, string) Request) = Pointer 1
   \<and> entered exampleClient (ReqList () (Pointer 1) []) exampleWorld = Some exampleWorld
   \<and> objectKind (heap (snd (perform exampleClient exampleCache (ReqList () (Pointer 1) [])
         exampleWorld)) 1) =
       \<lparr>gvk_Group = ''example.io'', gvk_Version = ''v1'', gvk_Kind = ''WidgetList''\<rparr>
   \<and> list_all ValidString
       (labelValues exampleEnv
          (spec_verb (ReqList () (Pointer 1) [] :: (unit, string, unit, string) Request))
          (heap (snd (perform exampleClient exampleCache (ReqList () (Pointer 1) [])
             exampleWorld)) 1))
   \<and> (\<exists>controller verb kind unstructured v.
         samples (snd (perform (monitorClient exampleEnv exampleClient)
             (monitorCache exampleEnv exampleCache) (ReqList () (Pointer 1) []) exampleWorld)) =
           samples (snd (perform exampleClient exampleCache (ReqList () (Pointer 1) [])
             exampleWorld)) @
             [(controllerClientRequestLatency exampleEnv,
               [controller, verb, kind, ''example.io/v1'', unstructured], v)])"
proof -
  have h1: "request_object (ReqCreate () (Pointer 0) [] :: (unit, string, unit, string) Request) = Pointer 0"
    by simp
  have h2: "entered exampleClient (ReqCreate () (Pointer 0) []) exampleWorld = Some exampleWorld"
    by simp
  have h3: "objectKind (heap (snd (perform exampleClient exampleCache (ReqCreate () (Pointer 0) [])
         exampleWorld)) 0) = \<lparr>gvk_Group = [], gvk_Version = ''v1'', gvk_Kind = ''Pod''\<rparr>"
    by (simp add: example_defs)
  have h4: "list_all ValidString
       (labelValues exampleEnv
          (spec_verb (ReqCreate () (Pointer 0) [] :: (unit, string, unit, string) Request))
          (heap (snd (perform exampleClient exampleCache (ReqCreate () (Pointer 0) [])
             exampleWorld)) 0))"
    by (simp add: label_defs utf8_defs example_defs)
  have c1: "\<exists>controller verb kind unstructured v.
         samples (snd (perform (monitorClient exampleEnv exampleClient)
             (monitorCache exampleEnv exampleCache) (ReqCreate () (Pointer 0) []) exampleWorld)) =
           samples (snd (perform exampleClient exampleCache (ReqCreate () (Pointer 0) [])
             exampleWorld)) @
             [(controllerClientRequestLatency exampleEnv,
               [controller, verb, kind, ''v1'', unstructured], v)]"
    using C7_api_version_label [OF h1 h2 h3 h4] by simp
  have g1: "request_object (ReqList () (Pointer 1) [] :: (unit, string, unit, string) Request) = Pointer 1"
    by simp
  have g2: "entered exampleClient (ReqList () (Pointer 1) []) exampleWorld = Some exampleWorld"
    by simp
  have g3: "objectKind (heap (snd (perform exampleClient exampleCache (ReqList () (Pointer 1) [])
         exampleWorld)) 1) =
       \<lparr>gvk_Group = ''example.io'', gvk_Version = ''v1'', gvk_Kind = ''WidgetList''\<rparr>"
    by (simp add: example_defs)
  have g4: "list_all ValidString
       (labelValues exampleEnv
          (spec_verb (ReqList () (Pointer 1) [] :: (unit, string, unit, string) Request))
          (heap (snd (perform exampleClient exampleCache (ReqList () (Pointer 1) [])
             exampleWorld)) 1))"
    by (simp add: label_defs utf8_defs example_defs)
  have c2: "\<exists>controller verb kind unstructured v.
         samples (snd (perform (monitorClient exampleEnv exampleClient)
             (monitorCache exampleEnv exampleCache) (ReqList () (Pointer 1) []) exampleWorld)) =
           samples (snd (perform exampleClient exampleCache (ReqList () (Pointer 1) [])
             exampleWorld)) @
             [(controllerClientRequestLatency exampleEnv,
               [controller, verb, kind, ''example.io/v1'', unstructured], v)]"
    using C7_api_version_label [OF g1 g2 g3 g4] by simp
  from h1 h2 h3 h4 c1 g1 g2 g3 g4 c2 show ?thesis by (intro conjI)
qed




subsection \<open>The histogram the samples go to\<close>

text \<open>
  C9: every observation of every operation of the instrumented client, of the status
  writer and of the instrumented cache is a sample on one and the same histogram vector,
  \<open>controllerClientRequestLatency\<close>, whatever the operation: the vector the sample is
  observed on is named kubevela\_controller\_client\_request\_time\_seconds, its label names
  are controller, verb, kind, apiVersion and unstructured in this order, its buckets are
  \<open>FineGrainedBuckets\<close>, and the sample has one value for each label name, in the same
  order, so that calls of the client and of the cache differ in label values only.
\<close>

theorem C9_one_histogram_fixed_schema:
  assumes "request_object req = Pointer a" and "entered c req w = Some w0"
    and "list_all ValidString
      (labelValues e (spec_verb req) (heap (snd (perform c ca req w)) a))"
  shows "\<exists>vec lvs v.
       samples (snd (perform (monitorClient e c) (monitorCache e ca) req w)) =
         samples (snd (perform c ca req w)) @ [(vec, lvs, v)]
     \<and> vec = controllerClientRequestLatency e
     \<and> Name vec = ''kubevela_controller_client_request_time_seconds''
     \<and> variableLabels vec = [''controller'', ''verb'', ''kind'', ''apiVersion'', ''unstructured'']
     \<and> Buckets vec = FineGrainedBuckets e
     \<and> length lvs = length (variableLabels vec)
     \<and> zip (variableLabels vec) lvs =
         [(''controller'', GetControllerInCaller e),
          (''verb'', spec_verb req),
          (''kind'', GetKindForObject (heap (snd (perform c ca req w)) a) True),
          (''apiVersion'',
             GroupVersion_String (gvk_GroupVersion (objectKind (heap (snd (perform c ca req w)) a)))),
          (''unstructured'', Sprintf_t (IsUnstructuredObject (heap (snd (perform c ca req w)) a)))]"
  using facade_samples [OF assms]
  by (simp add: labelValues_def vec_defs)

theorem C9_one_histogram_fixed_schema_witness:
  "request_object (ReqCacheList () (Pointer 1) [] :: (unit, string, unit, string) Request) = Pointer 1
   \<and> entered exampleClient (ReqCacheList () (Pointer 1) []) exampleWorld = Some exampleWorld
   \<and> list_all ValidString
       (labelValues exampleEnv
          (spec_verb (ReqCacheList () (Pointer 1) [] :: (unit, string, unit, string) Request))
          (heap (snd (perform exampleClient exampleCache (ReqCacheList () (Pointer 1) [])
             exampleWorld)) 1))
   \<and> (\<exists>vec lvs v.
         samples (snd (perform (monitorClient exampleEnv exampleClient)
             (monitorCache exampleEnv exampleCache) (ReqCacheList () (Pointer 1) []) exampleWorld)) =
           samples (snd (perform exampleClient exampleCache (ReqCacheList () (Pointer 1) [])
             exampleWorld)) @ [(vec, lvs, v)]
       \<and> Name vec = ''kubevela_controller_client_request_time_seconds''
       \<and> zip (variableLabels vec) lvs =
           [(''controller'', ''application''), (''verb'', ''ListCache''), (''kind'', ''Widget''),
            (''apiVersion'', ''example.io/v1''), (''unstructured'', ''true'')])"
proof -
  have h1: "request_object (ReqCacheList () (Pointer 1) [] :: (unit, string, unit, string) Request) = Pointer 1"
    by simp
  have h2: "entered exampleClient (ReqCacheList () (Pointer 1) []) exampleWorld = Some exampleWorld"
    by simp
  have h3: "list_all ValidString
       (labelValues exampleEnv
          (spec_verb (ReqCacheList () (Pointer 1) [] :: (unit, string, unit, string) Request))
          (heap (snd (perform exampleClient exampleCache (ReqCacheList () (Pointer 1) [])
             exampleWorld)) 1))"
    by (simp add: label_defs utf8_defs example_defs)
  have d: "perform exampleClient exampleCache (ReqCacheList () (Pointer 1) []) exampleWorld =
      (Returns None, tick 90000 exampleWorld)"
    by (simp add: exampleCache_def)
  have c: "\<exists>vec lvs v.
         samples (snd (perform (monitorClient exampleEnv exampleClient)
             (monitorCache exampleEnv exampleCache) (ReqCacheList () (Pointer 1) []) exampleWorld)) =
           samples (snd (perform exampleClient exampleCache (ReqCacheList () (Pointer 1) [])
             exampleWorld)) @ [(vec, lvs, v)]
       \<and> Name vec = ''kubevela_controller_client_request_time_seconds''
       \<and> zip (variableLabels vec) lvs =
           [(''controller'', ''application''), (''verb'', ''ListCache''), (''kind'', ''Widget''),
            (''apiVersion'', ''example.io/v1''), (''unstructured'', ''true'')]"
    using C9_one_histogram_fixed_schema [OF h1 h2 h3]
    unfolding d
    by (auto simp: label_defs tick_def exampleWorld_def exampleList_def exampleEnv_def)
  from h1 h2 h3 c show ?thesis by (intro conjI)
qed

text \<open>
  C10: the is\_dynamic dimension is the value of the label named unstructured, the fifth
  of the vector the sample is observed on, and it is the lowercase rendering of a boolean:
  exactly true when \<open>IsUnstructuredObject\<close> holds of the object, that is when it is held in
  the generic representation, and exactly false otherwise.
\<close>

theorem C10_unstructured_label:
  assumes "request_object req = Pointer a" and "entered c req w = Some w0"
    and "list_all ValidString
      (labelValues e (spec_verb req) (heap (snd (perform c ca req w)) a))"
  shows "\<exists>vec controller verb kind apiVersion v.
       samples (snd (perform (monitorClient e c) (monitorCache e ca) req w)) =
         samples (snd (perform c ca req w)) @
           [(vec, [controller, verb, kind, apiVersion,
              (if IsUnstructuredObject (heap (snd (perform c ca req w)) a)
               then ''true'' else ''false'')], v)]
     \<and> vec = controllerClientRequestLatency e
     \<and> variableLabels vec ! 4 = ''unstructured''
     \<and> length (variableLabels vec) = 5"
  using facade_samples [OF assms]
  by (simp add: labelValues_def Sprintf_t_def vec_defs)

theorem C10_unstructured_label_witness:
  "request_object (ReqList () (Pointer 1) [] :: (unit, string, unit, string) Request) = Pointer 1
   \<and> entered exampleClient (ReqList () (Pointer 1) []) exampleWorld = Some exampleWorld
   \<and> list_all ValidString
       (labelValues exampleEnv
          (spec_verb (ReqList () (Pointer 1) [] :: (unit, string, unit, string) Request))
          (heap (snd (perform exampleClient exampleCache (ReqList () (Pointer 1) [])
             exampleWorld)) 1))
   \<and> IsUnstructuredObject (heap (snd (perform exampleClient exampleCache (ReqList () (Pointer 1) []) exampleWorld)) 1)
   \<and> (\<exists>vec controller verb kind apiVersion v.
         samples (snd (perform (monitorClient exampleEnv exampleClient)
             (monitorCache exampleEnv exampleCache) (ReqList () (Pointer 1) []) exampleWorld)) =
           samples (snd (perform exampleClient exampleCache (ReqList () (Pointer 1) [])
             exampleWorld)) @ [(vec, [controller, verb, kind, apiVersion, ''true''], v)]
       \<and> variableLabels vec ! 4 = ''unstructured''
       \<and> length (variableLabels vec) = 5)
   \<and> request_object (ReqDelete () (Pointer 0) [] :: (unit, string, unit, string) Request) = Pointer 0
   \<and> entered exampleClient (ReqDelete () (Pointer 0) []) exampleWorld = Some exampleWorld
   \<and> list_all ValidString
       (labelValues exampleEnv
          (spec_verb (ReqDelete () (Pointer 0) [] :: (unit, string, unit, string) Request))
          (heap (snd (perform exampleClient exampleCache (ReqDelete () (Pointer 0) [])
             exampleWorld)) 0))
   \<and> \<not> IsUnstructuredObject (heap (snd (perform exampleClient exampleCache (ReqDelete () (Pointer 0) []) exampleWorld)) 0)
   \<and> (\<exists>vec controller verb kind apiVersion v.
         samples (snd (perform (monitorClient exampleEnv exampleClient)
             (monitorCache exampleEnv exampleCache) (ReqDelete () (Pointer 0) []) exampleWorld)) =
           samples (snd (perform exampleClient exampleCache (ReqDelete () (Pointer 0) [])
             exampleWorld)) @ [(vec, [controller, verb, kind, apiVersion, ''false''], v)]
       \<and> variableLabels vec ! 4 = ''unstructured''
       \<and> length (variableLabels vec) = 5)"
proof -
  have h1: "request_object (ReqList () (Pointer 1) [] :: (unit, string, unit, string) Request) = Pointer 1"
    by simp
  have h2: "entered exampleClient (ReqList () (Pointer 1) []) exampleWorld = Some exampleWorld"
    by simp
  have h3: "list_all ValidString
       (labelValues exampleEnv
          (spec_verb (ReqList () (Pointer 1) [] :: (unit, string, unit, string) Request))
          (heap (snd (perform exampleClient exampleCache (ReqList () (Pointer 1) [])
             exampleWorld)) 1))"
    by (simp add: label_defs utf8_defs example_defs)
  have t: "IsUnstructuredObject (heap (snd (perform exampleClient exampleCache (ReqList () (Pointer 1) [])
      exampleWorld)) 1)"
    by (simp add: IsUnstructuredObject_def example_defs)
  have c1: "\<exists>vec controller verb kind apiVersion v.
         samples (snd (perform (monitorClient exampleEnv exampleClient)
             (monitorCache exampleEnv exampleCache) (ReqList () (Pointer 1) []) exampleWorld)) =
           samples (snd (perform exampleClient exampleCache (ReqList () (Pointer 1) [])
             exampleWorld)) @ [(vec, [controller, verb, kind, apiVersion, ''true''], v)]
       \<and> variableLabels vec ! 4 = ''unstructured''
       \<and> length (variableLabels vec) = 5"
    using C10_unstructured_label [OF h1 h2 h3] t by auto
  have g1: "request_object (ReqDelete () (Pointer 0) [] :: (unit, string, unit, string) Request) = Pointer 0"
    by simp
  have g2: "entered exampleClient (ReqDelete () (Pointer 0) []) exampleWorld = Some exampleWorld"
    by simp
  have g3: "list_all ValidString
       (labelValues exampleEnv
          (spec_verb (ReqDelete () (Pointer 0) [] :: (unit, string, unit, string) Request))
          (heap (snd (perform exampleClient exampleCache (ReqDelete () (Pointer 0) [])
             exampleWorld)) 0))"
    by (simp add: label_defs utf8_defs example_defs)
  have f: "\<not> IsUnstructuredObject (heap (snd (perform exampleClient exampleCache (ReqDelete () (Pointer 0) [])
      exampleWorld)) 0)"
    by (simp add: IsUnstructuredObject_def example_defs)
  have c2: "\<exists>vec controller verb kind apiVersion v.
         samples (snd (perform (monitorClient exampleEnv exampleClient)
             (monitorCache exampleEnv exampleCache) (ReqDelete () (Pointer 0) []) exampleWorld)) =
           samples (snd (perform exampleClient exampleCache (ReqDelete () (Pointer 0) [])
             exampleWorld)) @ [(vec, [controller, verb, kind, apiVersion, ''false''], v)]
       \<and> variableLabels vec ! 4 = ''unstructured''
       \<and> length (variableLabels vec) = 5"
    using C10_unstructured_label [OF g1 g2 g3] f by auto
  from h1 h2 h3 t c1 g1 g2 g3 f c2 show ?thesis by (intro conjI)
qed

end
